theory Spec2Isabelle
  imports Complex_Main
begin

section \<open>Python values used by the engine model\<close>

text \<open>
  The module \<^verbatim>\<open>aerotrace/models/engine.py\<close> is dynamically typed: the annotation
  \<^verbatim>\<open>value: float\<close> is not enforced, only \<^verbatim>\<open>isinstance(self.value, (int, float))\<close> is.
  The values that can reach the code are therefore modelled explicitly.

  A Python \<^verbatim>\<open>float\<close> is a binary64 number: a finite value, one of the two infinities,
  or NaN. A finite float is represented by the real number it denotes (every binary64
  value is a real; the model quantifies over a superset, and the two zeros are one value,
  as they are for every comparison of the language).
\<close>

datatype pyfloat = Finite real | PosInf | NegInf | NaN

text \<open>
  The instances of \<^verbatim>\<open>(int, float)\<close>. \<^verbatim>\<open>bool\<close> is a subclass of \<^verbatim>\<open>int\<close>, so
  \<^verbatim>\<open>True\<close> and \<^verbatim>\<open>False\<close> are among them. Python integers are unbounded.
\<close>

datatype pynum = PyBool bool | PyInt int | PyFloat pyfloat

text \<open>The values a caller may pass as \<^verbatim>\<open>value\<close>: \<^verbatim>\<open>None\<close>, text, or a number.\<close>

datatype pyval = PyNone | PyStr string | PyNum pynum

datatype py_error = ValueError string | IndexError | OverflowError

text \<open>\<^verbatim>\<open>isinstance(v, (int, float))\<close>, returning the number when the test succeeds.\<close>

fun as_num :: "pyval \<Rightarrow> pynum option" where
  "as_num (PyNum x) = Some x"
| "as_num PyNone = None"
| "as_num (PyStr s) = None"

definition isinstance_int_float :: "pyval \<Rightarrow> bool" where
  "isinstance_int_float v = (as_num v \<noteq> None)"

text \<open>The two finiteness tests \<^verbatim>\<open>math.isfinite\<close> and \<^verbatim>\<open>math.isnan\<close> on numbers.\<close>

fun isfinite :: "pynum \<Rightarrow> bool" where
  "isfinite (PyFloat (Finite r)) = True"
| "isfinite (PyFloat PosInf) = False"
| "isfinite (PyFloat NegInf) = False"
| "isfinite (PyFloat NaN) = False"
| "isfinite (PyInt i) = True"
| "isfinite (PyBool b) = True"

fun isnan :: "pynum \<Rightarrow> bool" where
  "isnan (PyFloat NaN) = True"
| "isnan (PyFloat (Finite r)) = False"
| "isnan (PyFloat PosInf) = False"
| "isnan (PyFloat NegInf) = False"
| "isnan (PyInt i) = False"
| "isnan (PyBool b) = False"

section \<open>CylinderReading\<close>

text \<open>
  \<^verbatim>\<open>
  @dataclass
  class CylinderReading:
      number: int
      value: float

      def __post_init__(self) -> None:
          if self.number < 1:
              raise ValueError("Cylinder number must be >= 1")
          if not isinstance(self.value, (int, float)):
              raise ValueError("Temperature value must be numeric")
  \<close>
  A record of this type is an instance whose construction succeeded; its value is then
  an instance of \<^verbatim>\<open>(int, float)\<close>.
\<close>

record CylinderReading =
  number :: int
  "value" :: pynum

text \<open>The two error kinds of the specification are the two \<^verbatim>\<open>ValueError\<close>s of the source.\<close>

definition InvalidCylinderNumber :: py_error where
  "InvalidCylinderNumber = ValueError ''Cylinder number must be >= 1''"

definition NonNumericValue :: py_error where
  "NonNumericValue = ValueError ''Temperature value must be numeric''"

text \<open>
  The generated \<^verbatim>\<open>__init__\<close> followed by \<^verbatim>\<open>__post_init__\<close>: the checks in the order
  of the source, each \<^verbatim>\<open>raise\<close> an \<open>Inl\<close>.
\<close>

definition CylinderReading_init :: "int \<Rightarrow> pyval \<Rightarrow> py_error + CylinderReading" where
  "CylinderReading_init n v =
     (if n < 1 then Inl (ValueError ''Cylinder number must be >= 1'')
      else case as_num v of
             None \<Rightarrow> Inl (ValueError ''Temperature value must be numeric'')
           | Some x \<Rightarrow> Inr \<lparr>number = n, value = x\<rparr>)"

section \<open>Comparison and subtraction of Python numbers\<close>

text \<open>
  \<^verbatim>\<open>max(..., key=lambda x: x.value)\<close> compares the values with the
  operator greater-than, \<^verbatim>\<open>min\<close> with less-than. Python compares ints, bools and floats by their exact mathematical
  values (an int is not rounded to a float first); every ordered comparison with NaN is
  false. \<open>exact\<close> is the exact value of a number, a bool counting as 0 or 1.
\<close>

fun exact :: "pynum \<Rightarrow> pyfloat" where
  "exact (PyBool b) = Finite (if b then 1 else 0)"
| "exact (PyInt i) = Finite (real_of_int i)"
| "exact (PyFloat f) = f"

fun float_lt :: "pyfloat \<Rightarrow> pyfloat \<Rightarrow> bool" where
  "float_lt NaN y = False"
| "float_lt x NaN = False"
| "float_lt x NegInf = False"
| "float_lt NegInf y = True"
| "float_lt PosInf y = False"
| "float_lt x PosInf = True"
| "float_lt (Finite a) (Finite b) = (a < b)"

fun float_eq :: "pyfloat \<Rightarrow> pyfloat \<Rightarrow> bool" where
  "float_eq NaN y = False"
| "float_eq x NaN = False"
| "float_eq x y = (x = y)"

definition py_lt :: "pynum \<Rightarrow> pynum \<Rightarrow> bool" where
  "py_lt a b = float_lt (exact a) (exact b)"

definition py_gt :: "pynum \<Rightarrow> pynum \<Rightarrow> bool" where
  "py_gt a b = float_lt (exact b) (exact a)"

definition py_eq :: "pynum \<Rightarrow> pynum \<Rightarrow> bool" where
  "py_eq a b = float_eq (exact a) (exact b)"

definition py_le :: "pynum \<Rightarrow> pynum \<Rightarrow> bool" where
  "py_le a b = (py_lt a b \<or> py_eq a b)"

text \<open>
  \<^verbatim>\<open>hottest.value - coolest.value\<close>. Two ints (or bools) are subtracted exactly and give
  an int. Otherwise both operands become floats and are subtracted as binary64 numbers:
  converting an int that is too large raises \<^verbatim>\<open>OverflowError\<close>, and the difference of
  two finite floats is rounded. The rounding of the platform is not part of the source; it
  is the parameter \<open>rnd\<close>, which maps the exact real result to the float that represents
  it (an infinity when the result overflows).
\<close>

fun as_long :: "pynum \<Rightarrow> int option" where
  "as_long (PyBool b) = Some (if b then 1 else 0)"
| "as_long (PyInt i) = Some i"
| "as_long (PyFloat f) = None"

definition long_as_double :: "(real \<Rightarrow> pyfloat) \<Rightarrow> int \<Rightarrow> py_error + pyfloat" where
  "long_as_double rnd i =
     (case rnd (real_of_int i) of Finite r \<Rightarrow> Inr (Finite r) | _ \<Rightarrow> Inl OverflowError)"

fun to_double :: "(real \<Rightarrow> pyfloat) \<Rightarrow> pynum \<Rightarrow> py_error + pyfloat" where
  "to_double rnd (PyFloat f) = Inr f"
| "to_double rnd (PyInt i) = long_as_double rnd i"
| "to_double rnd (PyBool b) = long_as_double rnd (if b then 1 else 0)"

fun double_sub :: "(real \<Rightarrow> pyfloat) \<Rightarrow> pyfloat \<Rightarrow> pyfloat \<Rightarrow> pyfloat" where
  "double_sub rnd NaN y = NaN"
| "double_sub rnd x NaN = NaN"
| "double_sub rnd PosInf PosInf = NaN"
| "double_sub rnd NegInf NegInf = NaN"
| "double_sub rnd PosInf y = PosInf"
| "double_sub rnd NegInf y = NegInf"
| "double_sub rnd (Finite a) PosInf = NegInf"
| "double_sub rnd (Finite a) NegInf = PosInf"
| "double_sub rnd (Finite a) (Finite b) = rnd (a - b)"

definition py_sub :: "(real \<Rightarrow> pyfloat) \<Rightarrow> pynum \<Rightarrow> pynum \<Rightarrow> py_error + pynum" where
  "py_sub rnd a b =
     (case (as_long a, as_long b) of
        (Some i, Some j) \<Rightarrow> Inr (PyInt (i - j))
      | _ \<Rightarrow>
        (case to_double rnd a of
           Inl e \<Rightarrow> Inl e
         | Inr x \<Rightarrow>
           (case to_double rnd b of
              Inl e \<Rightarrow> Inl e
            | Inr y \<Rightarrow> Inr (PyFloat (double_sub rnd x y)))))"

text \<open>
  A rounding that keeps the exact result. It agrees with binary64 rounding wherever the
  exact result is a binary64 number (as in \<^verbatim>\<open>1250.5 - 1180.0 == 70.5\<close>) and serves to
  run the model on such inputs.
\<close>

definition exact_rounding :: "real \<Rightarrow> pyfloat" where
  "exact_rounding x = Finite x"

section \<open>CylinderReadings\<close>

text \<open>
  \<^verbatim>\<open>
  class CylinderReadings:
      def __init__(self, readings: List[CylinderReading]) -> None:
          self._readings = readings
      def __iter__(self):
          return iter(self._readings)
      def __len__(self) -> int:
          return len(self._readings)
      def __getitem__(self, index):
          return self._readings[index]
  \<close>
\<close>

datatype CylinderReadings = CylinderReadings (readings: "CylinderReading list")

definition iter :: "CylinderReadings \<Rightarrow> CylinderReading list" where
  "iter c = readings c"

definition len :: "CylinderReadings \<Rightarrow> int" where
  "len c = int (length (readings c))"

text \<open>
  Indexing a Python list with an integer: a negative index has the length added to it
  once, and the result must then lie in the list, else \<^verbatim>\<open>IndexError\<close> is raised.
\<close>

definition list_getitem :: "'a list \<Rightarrow> int \<Rightarrow> py_error + 'a" where
  "list_getitem xs i =
     (let j = (if i < 0 then i + int (length xs) else i)
      in if j < 0 \<or> int (length xs) \<le> j then Inl IndexError else Inr (xs ! nat j))"

definition getitem :: "CylinderReadings \<Rightarrow> int \<Rightarrow> py_error + CylinderReading" where
  "getitem c index = list_getitem (readings c) index"

text \<open>
  The loop of the built-ins \<^verbatim>\<open>max\<close> and \<^verbatim>\<open>min\<close> with a key: the first item is the
  initial candidate, and a later item replaces the candidate when its key compares
  \<open>better\<close> than the candidate's key (greater-than for \<^verbatim>\<open>max\<close>, less-than for \<^verbatim>\<open>min\<close>).
\<close>

fun min_max_loop :: "('k \<Rightarrow> 'k \<Rightarrow> bool) \<Rightarrow> ('a \<Rightarrow> 'k) \<Rightarrow> 'a \<Rightarrow> 'a list \<Rightarrow> 'a" where
  "min_max_loop better key best [] = best"
| "min_max_loop better key best (x # xs) =
     min_max_loop better key (if better (key x) (key best) then x else best) xs"

text \<open>
  \<^verbatim>\<open>
      def get_hottest(self) -> Optional[CylinderReading]:
          if not self._readings:
              return None
          return max(self._readings, key=lambda x: x.value)

      def get_coolest(self) -> Optional[CylinderReading]:
          if not self._readings:
              return None
          return min(self._readings, key=lambda x: x.value)
  \<close>
\<close>

definition get_hottest :: "CylinderReadings \<Rightarrow> CylinderReading option" where
  "get_hottest c =
     (case readings c of
        [] \<Rightarrow> None
      | x # xs \<Rightarrow> Some (min_max_loop py_gt value x xs))"

definition get_coolest :: "CylinderReadings \<Rightarrow> CylinderReading option" where
  "get_coolest c =
     (case readings c of
        [] \<Rightarrow> None
      | x # xs \<Rightarrow> Some (min_max_loop py_lt value x xs))"

text \<open>
  \<^verbatim>\<open>
      def get_difference(self) -> Optional[float]:
          hottest = self.get_hottest()
          coolest = self.get_coolest()
          if hottest and coolest:
              return hottest.value - coolest.value
          return None
  \<close>
  A \<^verbatim>\<open>CylinderReading\<close> defines neither \<^verbatim>\<open>__bool__\<close> nor \<^verbatim>\<open>__len__\<close>, so an instance
  is true and \<^verbatim>\<open>hottest and coolest\<close> is false exactly when one of them is \<^verbatim>\<open>None\<close>.
\<close>

definition get_difference ::
  "(real \<Rightarrow> pyfloat) \<Rightarrow> CylinderReadings \<Rightarrow> py_error + pynum option" where
  "get_difference rnd c =
     (case get_hottest c of
        None \<Rightarrow> Inr None
      | Some hottest \<Rightarrow>
        (case get_coolest c of
           None \<Rightarrow> Inr None
         | Some coolest \<Rightarrow>
           (case py_sub rnd (value hottest) (value coolest) of
              Inl e \<Rightarrow> Inl e
            | Inr d \<Rightarrow> Inr (Some d))))"

section \<open>EngineData\<close>

text \<open>
  \<^verbatim>\<open>
  @dataclass
  class EngineData:
      rpm: Optional[float] = None
      manifold_pressure: Optional[float] = None
      egts: CylinderReadings = field(default_factory=lambda: CylinderReadings([]))
      chts: CylinderReadings = field(default_factory=lambda: CylinderReadings([]))
      oil_pressure: Optional[float] = None
      oil_temperature: Optional[float] = None
      fuel_pressure: Optional[float] = None
      volts: Optional[float] = None
      amps: Optional[float] = None
      g_force: Optional[float] = None
  \<close>
  The class has no \<^verbatim>\<open>__post_init__\<close>: a scalar field holds whatever value it was given,
  \<^verbatim>\<open>None\<close> being the absent state.
\<close>

record EngineData =
  rpm :: pyval
  manifold_pressure :: pyval
  egts :: CylinderReadings
  chts :: CylinderReadings
  oil_pressure :: pyval
  oil_temperature :: pyval
  fuel_pressure :: pyval
  volts :: pyval
  amps :: pyval
  g_force :: pyval

text \<open>A keyword argument of the constructor is either left out or given.\<close>

datatype 'a arg = Omitted | Given 'a

fun or_default :: "'a arg \<Rightarrow> 'a \<Rightarrow> 'a" where
  "or_default Omitted d = d"
| "or_default (Given v) d = v"

text \<open>The generated \<^verbatim>\<open>__init__\<close>, its parameters in the order of the fields.\<close>

definition EngineData_init ::
  "pyval arg \<Rightarrow> pyval arg \<Rightarrow> CylinderReadings arg \<Rightarrow> CylinderReadings arg \<Rightarrow> pyval arg \<Rightarrow>
   pyval arg \<Rightarrow> pyval arg \<Rightarrow> pyval arg \<Rightarrow> pyval arg \<Rightarrow> pyval arg \<Rightarrow> EngineData" where
  "EngineData_init a_rpm a_manifold_pressure a_egts a_chts a_oil_pressure a_oil_temperature
     a_fuel_pressure a_volts a_amps a_g_force =
     \<lparr>rpm = or_default a_rpm PyNone,
      manifold_pressure = or_default a_manifold_pressure PyNone,
      egts = or_default a_egts (CylinderReadings []),
      chts = or_default a_chts (CylinderReadings []),
      oil_pressure = or_default a_oil_pressure PyNone,
      oil_temperature = or_default a_oil_temperature PyNone,
      fuel_pressure = or_default a_fuel_pressure PyNone,
      volts = or_default a_volts PyNone,
      amps = or_default a_amps PyNone,
      g_force = or_default a_g_force PyNone\<rparr>"

section \<open>Readings of the test suite\<close>

text \<open>
  The three readings of \<^verbatim>\<open>tests/test_models_engine.py\<close>
  (\<^verbatim>\<open>CylinderReading(number=1, value=1200.0)\<close>, \<^verbatim>\<open>(2, 1250.5)\<close>, \<^verbatim>\<open>(3, 1180.0)\<close>) and
  two readings with a value that is not finite.
\<close>

abbreviation reading1 :: CylinderReading where
  "reading1 \<equiv> \<lparr>number = 1, value = PyFloat (Finite 1200)\<rparr>"

abbreviation reading2 :: CylinderReading where
  "reading2 \<equiv> \<lparr>number = 2, value = PyFloat (Finite 1250.5)\<rparr>"

abbreviation reading3 :: CylinderReading where
  "reading3 \<equiv> \<lparr>number = 3, value = PyFloat (Finite 1180)\<rparr>"

abbreviation reading_nan :: CylinderReading where
  "reading_nan \<equiv> \<lparr>number = 1, value = PyFloat NaN\<rparr>"

abbreviation reading_inf :: CylinderReading where
  "reading_inf \<equiv> \<lparr>number = 1, value = PyFloat PosInf\<rparr>"

section \<open>Construction of a CylinderReading\<close>

lemma error_kinds_distinct: "InvalidCylinderNumber \<noteq> NonNumericValue"
  by (simp add: InvalidCylinderNumber_def NonNumericValue_def)

lemma init_below_one: "n < 1 \<Longrightarrow> CylinderReading_init n v = Inl InvalidCylinderNumber"
  by (simp add: CylinderReading_init_def InvalidCylinderNumber_def)

lemma init_numeric:
  "1 \<le> n \<Longrightarrow> CylinderReading_init n (PyNum x) = Inr \<lparr>number = n, value = x\<rparr>"
  by (simp add: CylinderReading_init_def)

lemma init_non_numeric:
  "1 \<le> n \<Longrightarrow> as_num v = None \<Longrightarrow> CylinderReading_init n v = Inl NonNumericValue"
  by (simp add: CylinderReading_init_def NonNumericValue_def)

text \<open>
  C6. For a numeric value, construction fails with InvalidCylinderNumber exactly when the
  number is below 1; for every number from 1 on it succeeds and the reading holds the
  number and the value it was given (zero and negative values included, the value being
  arbitrary).
\<close>

theorem C6_number_validation:
  "(CylinderReading_init n (PyNum x) = Inl InvalidCylinderNumber \<longleftrightarrow> n < 1) \<and>
   (1 \<le> n \<longrightarrow>
      (\<exists>r. CylinderReading_init n (PyNum x) = Inr r \<and> number r = n \<and> value r = x))"
proof (cases "n < 1")
  case True
  then show ?thesis by (simp add: init_below_one)
next
  case False
  then have "CylinderReading_init n (PyNum x) = Inr \<lparr>number = n, value = x\<rparr>"
    by (simp add: init_numeric)
  with False show ?thesis by simp
qed

theorem C6_number_validation_witness:
  "CylinderReading_init 0 (PyNum (PyFloat (Finite 1200))) = Inl InvalidCylinderNumber \<and>
   CylinderReading_init (- 1) (PyNum (PyFloat (Finite 1200))) = Inl InvalidCylinderNumber \<and>
   CylinderReading_init 1 (PyNum (PyFloat (Finite (- 10.5))))
     = Inr \<lparr>number = 1, value = PyFloat (Finite (- 10.5))\<rparr> \<and>
   CylinderReading_init 6 (PyNum (PyInt 0)) = Inr \<lparr>number = 6, value = PyInt 0\<rparr>"
  using C6_number_validation [of 0 "PyFloat (Finite 1200)"]
    C6_number_validation [of "- 1" "PyFloat (Finite 1200)"]
    C6_number_validation [of 1 "PyFloat (Finite (- 10.5))"]
    C6_number_validation [of 6 "PyInt 0"]
  by auto

text \<open>
  C9. When the number is below 1 and the value is not numeric, the error is
  InvalidCylinderNumber (and not NonNumericValue): the number is checked first.
\<close>

theorem C9_number_checked_first:
  "n < 1 \<Longrightarrow> \<not> isinstance_int_float v \<Longrightarrow>
     CylinderReading_init n v = Inl InvalidCylinderNumber \<and>
     CylinderReading_init n v \<noteq> Inl NonNumericValue"
  by (simp add: init_below_one error_kinds_distinct)

theorem C9_number_checked_first_witness:
  "CylinderReading_init 0 (PyStr ''1200'') = Inl InvalidCylinderNumber \<and>
   CylinderReading_init 0 (PyStr ''1200'') \<noteq> Inl NonNumericValue \<and>
   CylinderReading_init (- 1) PyNone = Inl InvalidCylinderNumber"
  using C9_number_checked_first [of 0 "PyStr ''1200''"]
    C9_number_checked_first [of "- 1" PyNone]
  by (simp add: isinstance_int_float_def error_kinds_distinct)

text \<open>
  C10. A boolean value passes the numeric check (bool is a subclass of int): for every
  number from 1 on, construction succeeds and the reading stores the boolean itself.
\<close>

theorem C10_bool_accepted:
  "1 \<le> n \<Longrightarrow>
     isinstance_int_float (PyNum (PyBool b)) \<and>
     CylinderReading_init n (PyNum (PyBool b)) = Inr \<lparr>number = n, value = PyBool b\<rparr> \<and>
     CylinderReading_init n (PyNum (PyBool b)) \<noteq> Inl NonNumericValue"
  by (simp add: init_numeric isinstance_int_float_def)

theorem C10_bool_accepted_witness:
  "CylinderReading_init 1 (PyNum (PyBool True)) = Inr \<lparr>number = 1, value = PyBool True\<rparr> \<and>
   CylinderReading_init 4 (PyNum (PyBool False)) = Inr \<lparr>number = 4, value = PyBool False\<rparr>"
  using C10_bool_accepted [of 1 True] C10_bool_accepted [of 4 False]
  by simp

text \<open>
  C3, as the code has it. The claim says that no reading with a non-finite value can be
  constructed; the source only tests \<^verbatim>\<open>isinstance(self.value, (int, float))\<close>, which
  \<^verbatim>\<open>float('inf')\<close> and \<^verbatim>\<open>float('nan')\<close> pass. Construction with number 1 and
  infinity succeeds, and the stored value is not finite.
\<close>

theorem C3_infinity_accepted:
  "CylinderReading_init 1 (PyNum (PyFloat PosInf)) = Inr \<lparr>number = 1, value = PyFloat PosInf\<rparr> \<and>
   \<not> isfinite (value \<lparr>number = 1, value = PyFloat PosInf\<rparr>) \<and>
   CylinderReading_init 1 (PyNum (PyFloat NaN)) = Inr \<lparr>number = 1, value = PyFloat NaN\<rparr> \<and>
   \<not> isfinite (value \<lparr>number = 1, value = PyFloat NaN\<rparr>)"
  by (simp add: CylinderReading_init_def)

text \<open>
  C3, amended. Construction fails with NonNumericValue exactly when the number is at
  least 1 and the value is not an instance of int or float (text, None). A reading that
  was constructed holds the number and the numeric value it was given; the value need
  not be finite: with a number from 1 on, every float is accepted and stored, infinities
  and NaN included.
\<close>

theorem C3_non_numeric_rejected:
  "(CylinderReading_init n v = Inl NonNumericValue \<longleftrightarrow> 1 \<le> n \<and> \<not> isinstance_int_float v) \<and>
   (\<forall>r. CylinderReading_init n v = Inr r \<longrightarrow> v = PyNum (value r) \<and> number r = n) \<and>
   (\<forall>f. 1 \<le> n \<longrightarrow>
      CylinderReading_init n (PyNum (PyFloat f)) = Inr \<lparr>number = n, value = PyFloat f\<rparr>)"
proof (intro conjI allI impI)
  show "CylinderReading_init n v = Inl NonNumericValue \<longleftrightarrow> 1 \<le> n \<and> \<not> isinstance_int_float v"
  proof (cases "n < 1")
    case True
    then show ?thesis using error_kinds_distinct by (simp add: init_below_one)
  next
    case False
    then show ?thesis
      by (cases v) (simp_all add: init_numeric init_non_numeric isinstance_int_float_def)
  qed
next
  fix r assume "CylinderReading_init n v = Inr r"
  then show "v = PyNum (value r)" and "number r = n"
    by (cases v; auto simp: CylinderReading_init_def split: if_splits)+
next
  fix f assume "1 \<le> n"
  then show "CylinderReading_init n (PyNum (PyFloat f)) = Inr \<lparr>number = n, value = PyFloat f\<rparr>"
    by (rule init_numeric)
qed

theorem C3_non_numeric_rejected_witness:
  "CylinderReading_init 1 (PyStr ''1200'') = Inl NonNumericValue \<and>
   CylinderReading_init 1 PyNone = Inl NonNumericValue \<and>
   CylinderReading_init 0 PyNone \<noteq> Inl NonNumericValue \<and>
   CylinderReading_init 2 (PyNum (PyFloat NegInf)) = Inr \<lparr>number = 2, value = PyFloat NegInf\<rparr> \<and>
   CylinderReading_init 1 (PyNum (PyInt 1200)) \<noteq> Inl NonNumericValue \<and>
   (\<exists>r. CylinderReading_init 1 (PyNum (PyInt 1200)) = Inr r \<and>
        PyNum (PyInt 1200) = PyNum (value r) \<and> number r = 1)"
proof -
  have "CylinderReading_init 1 (PyNum (PyInt 1200)) = Inr \<lparr>number = 1, value = PyInt 1200\<rparr>"
    by (simp add: init_numeric)
  with C3_non_numeric_rejected [of 1 "PyNum (PyInt 1200)"]
  have "\<exists>r. CylinderReading_init 1 (PyNum (PyInt 1200)) = Inr r \<and>
        PyNum (PyInt 1200) = PyNum (value r) \<and> number r = 1"
    by blast
  then show ?thesis
    using C3_non_numeric_rejected [of 1 "PyStr ''1200''"]
      C3_non_numeric_rejected [of 1 PyNone]
      C3_non_numeric_rejected [of 0 PyNone]
      C3_non_numeric_rejected [of 2 "PyNum (PyFloat NegInf)"]
      C3_non_numeric_rejected [of 1 "PyNum (PyInt 1200)"]
    by (simp add: isinstance_int_float_def)
qed

section \<open>The order of Python numbers\<close>

lemma exact_nan: "exact a = NaN \<longleftrightarrow> isnan a"
  by (cases a rule: isnan.cases) simp_all

lemma float_lt_trans: "float_lt a b \<Longrightarrow> float_lt b c \<Longrightarrow> float_lt a c"
  by (cases a; cases b; cases c) simp_all

lemma float_not_lt:
  "a \<noteq> NaN \<Longrightarrow> b \<noteq> NaN \<Longrightarrow> \<not> float_lt a b \<Longrightarrow> float_lt b a \<or> float_eq b a"
  by (cases a; cases b) auto

lemma float_lt_neg_trans:
  "b \<noteq> NaN \<Longrightarrow> float_lt m x \<Longrightarrow> \<not> float_lt m b \<Longrightarrow> float_lt b x"
  by (cases m; cases x; cases b) simp_all

lemma float_gt_neg_trans:
  "b \<noteq> NaN \<Longrightarrow> float_lt x m \<Longrightarrow> \<not> float_lt b m \<Longrightarrow> float_lt x b"
  by (cases m; cases x; cases b) simp_all

lemma float_eq_refl: "a \<noteq> NaN \<Longrightarrow> float_eq a a"
  by (cases a) simp_all

lemma py_le_refl: "\<not> isnan a \<Longrightarrow> py_le a a"
  by (simp add: py_le_def py_eq_def float_eq_refl exact_nan)

lemma py_lt_le: "py_lt a b \<Longrightarrow> py_le a b"
  by (simp add: py_le_def)

section \<open>The loop of max and min\<close>

text \<open>
  The invariant of the loop: the items seen so far are \<open>pre0 @ best # post0\<close>, the
  candidate is better than every item before it, and no item after it is better than the
  candidate. A better item \<open>x\<close> becomes the candidate with everything seen before it;
  this step needs the keys to be ordered totally (\<open>P\<close> holds of the keys that are).
\<close>

lemma min_max_loop_split:
  assumes tr: "\<And>a b c. better a b \<Longrightarrow> better b c \<Longrightarrow> better a c"
    and neg: "\<And>a m b. P b \<Longrightarrow> better a m \<Longrightarrow> \<not> better b m \<Longrightarrow> better a b"
  shows "\<forall>y \<in> set (pre0 @ best # post0 @ xs). P (key y) \<Longrightarrow>
         \<forall>y \<in> set pre0. better (key best) (key y) \<Longrightarrow>
         \<forall>y \<in> set post0. \<not> better (key y) (key best) \<Longrightarrow>
         \<exists>pre post. pre0 @ best # post0 @ xs = pre @ min_max_loop better key best xs # post \<and>
           (\<forall>y \<in> set pre. better (key (min_max_loop better key best xs)) (key y)) \<and>
           (\<forall>y \<in> set post. \<not> better (key y) (key (min_max_loop better key best xs)))"
proof (induction xs arbitrary: pre0 best post0)
  case Nil
  then show ?case by auto
next
  case (Cons x xs)
  show ?case
  proof (cases "better (key x) (key best)")
    case True
    have carrier: "\<forall>y \<in> set ((pre0 @ best # post0) @ x # [] @ xs). P (key y)"
      using Cons.prems(1) by simp
    have earlier: "\<forall>y \<in> set (pre0 @ best # post0). better (key x) (key y)"
    proof
      fix y assume "y \<in> set (pre0 @ best # post0)"
      then consider "y \<in> set pre0" | "y = best" | "y \<in> set post0" by auto
      then show "better (key x) (key y)"
      proof cases
        case 1
        with Cons.prems(2) have "better (key best) (key y)" by blast
        with True show ?thesis by (rule tr)
      next
        case 2
        with True show ?thesis by simp
      next
        case 3
        with Cons.prems(3) have "\<not> better (key y) (key best)" by blast
        moreover from 3 Cons.prems(1) have "P (key y)" by simp
        ultimately show ?thesis using True neg by blast
      qed
    qed
    have "\<exists>pre post. (pre0 @ best # post0) @ x # [] @ xs = pre @ min_max_loop better key x xs # post \<and>
           (\<forall>y \<in> set pre. better (key (min_max_loop better key x xs)) (key y)) \<and>
           (\<forall>y \<in> set post. \<not> better (key y) (key (min_max_loop better key x xs)))"
      by (rule Cons.IH [OF carrier earlier]) simp
    with True show ?thesis by simp
  next
    case False
    have carrier: "\<forall>y \<in> set (pre0 @ best # (post0 @ [x]) @ xs). P (key y)"
      using Cons.prems(1) by simp
    have later: "\<forall>y \<in> set (post0 @ [x]). \<not> better (key y) (key best)"
      using Cons.prems(3) False by simp
    have "\<exists>pre post. pre0 @ best # (post0 @ [x]) @ xs = pre @ min_max_loop better key best xs # post \<and>
           (\<forall>y \<in> set pre. better (key (min_max_loop better key best xs)) (key y)) \<and>
           (\<forall>y \<in> set post. \<not> better (key y) (key (min_max_loop better key best xs)))"
      by (rule Cons.IH [OF carrier Cons.prems(2) later])
    with False show ?thesis by simp
  qed
qed

text \<open>From a split of the list to positions in it.\<close>

lemma split_index:
  assumes "rs = pre @ r # post"
    and "\<forall>y \<in> set pre. L y" and "\<forall>y \<in> set post. M y" and "M r" and "\<And>y. L y \<Longrightarrow> M y"
  shows "\<exists>i<length rs. rs ! i = r \<and> (\<forall>j<length rs. M (rs ! j)) \<and> (\<forall>j<i. L (rs ! j))"
proof (intro exI [of _ "length pre"] conjI allI impI)
  show "length pre < length rs" using assms(1) by simp
  show "rs ! length pre = r" using assms(1) by simp
next
  fix j assume "j < length rs"
  then have "rs ! j \<in> set rs" by simp
  then have "rs ! j \<in> set pre \<or> rs ! j = r \<or> rs ! j \<in> set post" using assms(1) by auto
  then show "M (rs ! j)" using assms(2-5) by blast
next
  fix j assume "j < length pre"
  then have "rs ! j \<in> set pre" using assms(1) by (simp add: nth_append)
  then show "L (rs ! j)" using assms(2) by blast
qed

lemma hottest_split:
  assumes "\<forall>y \<in> set (x # xs). \<not> isnan (value y)"
  shows "\<exists>pre post. x # xs = pre @ min_max_loop py_gt value x xs # post \<and>
           (\<forall>y \<in> set pre. py_lt (value y) (value (min_max_loop py_gt value x xs))) \<and>
           (\<forall>y \<in> set post. py_le (value y) (value (min_max_loop py_gt value x xs)))"
proof -
  let ?r = "min_max_loop py_gt value x xs"
  have tr: "\<And>a b c. py_gt a b \<Longrightarrow> py_gt b c \<Longrightarrow> py_gt a c"
    unfolding py_gt_def by (erule (1) float_lt_trans [rotated])
  have neg: "\<And>a m b. \<not> isnan b \<Longrightarrow> py_gt a m \<Longrightarrow> \<not> py_gt b m \<Longrightarrow> py_gt a b"
    unfolding py_gt_def by (rule float_lt_neg_trans) (simp_all add: exact_nan)
  have carrier: "\<forall>y \<in> set ([] @ x # [] @ xs). \<not> isnan (value y)" using assms by simp
  have "\<exists>pre post. [] @ x # [] @ xs = pre @ ?r # post \<and>
           (\<forall>y \<in> set pre. py_gt (value ?r) (value y)) \<and>
           (\<forall>y \<in> set post. \<not> py_gt (value y) (value ?r))"
    by (rule min_max_loop_split [where P = "\<lambda>k. \<not> isnan k", OF tr neg carrier]) simp_all
  then obtain pre post where s: "x # xs = pre @ ?r # post"
    and a: "\<forall>y \<in> set pre. py_gt (value ?r) (value y)"
    and b: "\<forall>y \<in> set post. \<not> py_gt (value y) (value ?r)" by auto
  have rin: "?r \<in> set (x # xs)" by (subst s) simp
  have "\<forall>y \<in> set post. py_le (value y) (value ?r)"
  proof
    fix y assume y: "y \<in> set post"
    then have "y \<in> set (x # xs)" by (subst s) simp
    with assms rin have "exact (value ?r) \<noteq> NaN" "exact (value y) \<noteq> NaN"
      by (simp_all only: exact_nan) blast+
    moreover from b y have "\<not> float_lt (exact (value ?r)) (exact (value y))"
      by (simp add: py_gt_def)
    ultimately show "py_le (value y) (value ?r)"
      unfolding py_le_def py_lt_def py_eq_def by (rule float_not_lt)
  qed
  moreover have "\<forall>y \<in> set pre. py_lt (value y) (value ?r)"
    using a by (simp add: py_gt_def py_lt_def)
  ultimately show ?thesis using s by blast
qed

lemma coolest_split:
  assumes "\<forall>y \<in> set (x # xs). \<not> isnan (value y)"
  shows "\<exists>pre post. x # xs = pre @ min_max_loop py_lt value x xs # post \<and>
           (\<forall>y \<in> set pre. py_lt (value (min_max_loop py_lt value x xs)) (value y)) \<and>
           (\<forall>y \<in> set post. py_le (value (min_max_loop py_lt value x xs)) (value y))"
proof -
  let ?r = "min_max_loop py_lt value x xs"
  have tr: "\<And>a b c. py_lt a b \<Longrightarrow> py_lt b c \<Longrightarrow> py_lt a c"
    unfolding py_lt_def by (rule float_lt_trans)
  have neg: "\<And>a m b. \<not> isnan b \<Longrightarrow> py_lt a m \<Longrightarrow> \<not> py_lt b m \<Longrightarrow> py_lt a b"
    unfolding py_lt_def by (rule float_gt_neg_trans) (simp_all add: exact_nan)
  have carrier: "\<forall>y \<in> set ([] @ x # [] @ xs). \<not> isnan (value y)" using assms by simp
  have "\<exists>pre post. [] @ x # [] @ xs = pre @ ?r # post \<and>
           (\<forall>y \<in> set pre. py_lt (value ?r) (value y)) \<and>
           (\<forall>y \<in> set post. \<not> py_lt (value y) (value ?r))"
    by (rule min_max_loop_split [where P = "\<lambda>k. \<not> isnan k", OF tr neg carrier]) simp_all
  then obtain pre post where s: "x # xs = pre @ ?r # post"
    and a: "\<forall>y \<in> set pre. py_lt (value ?r) (value y)"
    and b: "\<forall>y \<in> set post. \<not> py_lt (value y) (value ?r)" by auto
  have rin: "?r \<in> set (x # xs)" by (subst s) simp
  have "\<forall>y \<in> set post. py_le (value ?r) (value y)"
  proof
    fix y assume y: "y \<in> set post"
    then have "y \<in> set (x # xs)" by (subst s) simp
    with assms rin have "exact (value y) \<noteq> NaN" "exact (value ?r) \<noteq> NaN"
      by (simp_all only: exact_nan) blast+
    moreover from b y have "\<not> float_lt (exact (value y)) (exact (value ?r))"
      by (simp add: py_lt_def)
    ultimately show "py_le (value ?r) (value y)"
      unfolding py_le_def py_lt_def py_eq_def by (rule float_not_lt)
  qed
  with a s show ?thesis by blast
qed

section \<open>get_hottest and get_coolest\<close>

text \<open>
  C1, as the code has it. The claim is made for every collection; a reading may hold NaN
  (construction accepts it), and every comparison with NaN is false. When the first
  reading holds NaN, no later reading replaces it: of the readings NaN and 5.0,
  get_hottest returns the NaN reading, whose value is not greater than or equal to 5.0.
  With the same two readings in the other order it returns the reading 5.0.
\<close>

theorem C1_nan_first_is_returned:
  "get_hottest (CylinderReadings [reading_nan, \<lparr>number = 2, value = PyFloat (Finite 5)\<rparr>])
     = Some reading_nan \<and>
   \<not> py_le (value \<lparr>number = 2, value = PyFloat (Finite 5)\<rparr>) (value reading_nan) \<and>
   get_hottest (CylinderReadings [\<lparr>number = 2, value = PyFloat (Finite 5)\<rparr>, reading_nan])
     = Some \<lparr>number = 2, value = PyFloat (Finite 5)\<rparr>"
  by (simp add: get_hottest_def py_gt_def py_le_def py_lt_def py_eq_def)

text \<open>
  C1, amended. For every collection in which no reading holds NaN: get_hottest returns
  None when the collection is empty; otherwise it returns the reading at a position \<open>i\<close>
  such that every reading of the collection has a value less than or equal to the value at
  \<open>i\<close> (the maximum), and every reading before \<open>i\<close> has a strictly smaller value (of
  the readings that share the maximum, the first in stored order).
\<close>

theorem C1_hottest_without_nan:
  assumes "\<forall>r \<in> set (readings c). \<not> isnan (value r)"
  shows "(readings c = [] \<longrightarrow> get_hottest c = None) \<and>
         (readings c \<noteq> [] \<longrightarrow>
            (\<exists>i<length (readings c).
               get_hottest c = Some (readings c ! i) \<and>
               (\<forall>j<length (readings c). py_le (value (readings c ! j)) (value (readings c ! i))) \<and>
               (\<forall>j<i. py_lt (value (readings c ! j)) (value (readings c ! i)))))"
proof (cases "readings c")
  case Nil
  then show ?thesis by (simp add: get_hottest_def)
next
  case (Cons x xs)
  let ?r = "min_max_loop py_gt value x xs"
  have h: "get_hottest c = Some ?r" using Cons by (simp add: get_hottest_def)
  from assms Cons have nn: "\<forall>y \<in> set (x # xs). \<not> isnan (value y)" by simp
  from hottest_split [OF nn] obtain pre post where s: "x # xs = pre @ ?r # post"
    and a: "\<forall>y \<in> set pre. py_lt (value y) (value ?r)"
    and b: "\<forall>y \<in> set post. py_le (value y) (value ?r)" by blast
  have "?r \<in> set (x # xs)" by (subst s) simp
  with nn have "py_le (value ?r) (value ?r)" by (blast intro: py_le_refl)
  from split_index [where L = "\<lambda>y. py_lt (value y) (value ?r)"
      and M = "\<lambda>y. py_le (value y) (value ?r)", OF s a b this py_lt_le]
  obtain i where "i < length (x # xs)" "(x # xs) ! i = ?r"
    "\<forall>j<length (x # xs). py_le (value ((x # xs) ! j)) (value ?r)"
    "\<forall>j<i. py_lt (value ((x # xs) ! j)) (value ?r)" by blast
  then show ?thesis using Cons h by auto
qed

theorem C1_hottest_without_nan_witness:
  "(\<exists>i<length (readings (CylinderReadings [reading1, reading2, reading3])).
      get_hottest (CylinderReadings [reading1, reading2, reading3])
        = Some (readings (CylinderReadings [reading1, reading2, reading3]) ! i)) \<and>
   get_hottest (CylinderReadings [reading1, reading2, reading3]) = Some reading2 \<and>
   get_hottest (CylinderReadings [reading1, \<lparr>number = 2, value = PyInt 1200\<rparr>,
                                  \<lparr>number = 3, value = PyFloat (Finite 1200)\<rparr>])
     = Some reading1 \<and>
   get_hottest (CylinderReadings []) = None"
proof -
  let ?c = "CylinderReadings [reading1, reading2, reading3]"
  let ?t = "CylinderReadings [reading1, \<lparr>number = 2, value = PyInt 1200\<rparr>,
                              \<lparr>number = 3, value = PyFloat (Finite 1200)\<rparr>]"
  have nn: "\<forall>r \<in> set (readings ?c). \<not> isnan (value r)" by simp
  have ne: "readings ?c \<noteq> []" by simp
  from C1_hottest_without_nan [OF nn] ne
  have "\<exists>i<length (readings ?c). get_hottest ?c = Some (readings ?c ! i)" by blast
  moreover have "get_hottest ?c = Some reading2"
    by (simp add: get_hottest_def py_gt_def)
  moreover have "get_hottest ?t = Some reading1"
    by (simp add: get_hottest_def py_gt_def)
  moreover have "get_hottest (CylinderReadings []) = None"
    using C1_hottest_without_nan [of "CylinderReadings []"] by simp
  ultimately show ?thesis by simp
qed

text \<open>
  C5, as the code has it. Of the readings NaN and 5.0, in this order, get_coolest returns
  the NaN reading, whose value is not less than or equal to 5.0; in the other order it
  returns the reading 5.0.
\<close>

theorem C5_nan_first_is_returned:
  "get_coolest (CylinderReadings [reading_nan, \<lparr>number = 2, value = PyFloat (Finite 5)\<rparr>])
     = Some reading_nan \<and>
   \<not> py_le (value reading_nan) (value \<lparr>number = 2, value = PyFloat (Finite 5)\<rparr>) \<and>
   get_coolest (CylinderReadings [\<lparr>number = 2, value = PyFloat (Finite 5)\<rparr>, reading_nan])
     = Some \<lparr>number = 2, value = PyFloat (Finite 5)\<rparr>"
  by (simp add: get_coolest_def py_lt_def py_le_def py_eq_def)

text \<open>
  C5, amended. For every collection in which no reading holds NaN: get_coolest returns
  None when the collection is empty; otherwise it returns the reading at a position \<open>i\<close>
  such that the value at \<open>i\<close> is less than or equal to the value of every reading of the
  collection (the minimum), and strictly smaller than the value of every reading before
  \<open>i\<close> (of the readings that share the minimum, the first in stored order).
\<close>

theorem C5_coolest_without_nan:
  assumes "\<forall>r \<in> set (readings c). \<not> isnan (value r)"
  shows "(readings c = [] \<longrightarrow> get_coolest c = None) \<and>
         (readings c \<noteq> [] \<longrightarrow>
            (\<exists>i<length (readings c).
               get_coolest c = Some (readings c ! i) \<and>
               (\<forall>j<length (readings c). py_le (value (readings c ! i)) (value (readings c ! j))) \<and>
               (\<forall>j<i. py_lt (value (readings c ! i)) (value (readings c ! j)))))"
proof (cases "readings c")
  case Nil
  then show ?thesis by (simp add: get_coolest_def)
next
  case (Cons x xs)
  let ?r = "min_max_loop py_lt value x xs"
  have h: "get_coolest c = Some ?r" using Cons by (simp add: get_coolest_def)
  from assms Cons have nn: "\<forall>y \<in> set (x # xs). \<not> isnan (value y)" by simp
  from coolest_split [OF nn] obtain pre post where s: "x # xs = pre @ ?r # post"
    and a: "\<forall>y \<in> set pre. py_lt (value ?r) (value y)"
    and b: "\<forall>y \<in> set post. py_le (value ?r) (value y)" by blast
  have "?r \<in> set (x # xs)" by (subst s) simp
  with nn have "py_le (value ?r) (value ?r)" by (blast intro: py_le_refl)
  from split_index [where L = "\<lambda>y. py_lt (value ?r) (value y)"
      and M = "\<lambda>y. py_le (value ?r) (value y)", OF s a b this py_lt_le]
  obtain i where "i < length (x # xs)" "(x # xs) ! i = ?r"
    "\<forall>j<length (x # xs). py_le (value ?r) (value ((x # xs) ! j))"
    "\<forall>j<i. py_lt (value ?r) (value ((x # xs) ! j))" by blast
  then show ?thesis using Cons h by auto
qed

theorem C5_coolest_without_nan_witness:
  "(\<exists>i<length (readings (CylinderReadings [reading1, reading2, reading3])).
      get_coolest (CylinderReadings [reading1, reading2, reading3])
        = Some (readings (CylinderReadings [reading1, reading2, reading3]) ! i)) \<and>
   get_coolest (CylinderReadings [reading1, reading2, reading3]) = Some reading3 \<and>
   get_coolest (CylinderReadings [reading1, \<lparr>number = 2, value = PyInt 1200\<rparr>,
                                  \<lparr>number = 3, value = PyFloat (Finite 1200)\<rparr>])
     = Some reading1 \<and>
   get_coolest (CylinderReadings []) = None"
proof -
  let ?c = "CylinderReadings [reading1, reading2, reading3]"
  let ?t = "CylinderReadings [reading1, \<lparr>number = 2, value = PyInt 1200\<rparr>,
                              \<lparr>number = 3, value = PyFloat (Finite 1200)\<rparr>]"
  have nn: "\<forall>r \<in> set (readings ?c). \<not> isnan (value r)" by simp
  have ne: "readings ?c \<noteq> []" by simp
  from C5_coolest_without_nan [OF nn] ne
  have "\<exists>i<length (readings ?c). get_coolest ?c = Some (readings ?c ! i)" by blast
  moreover have "get_coolest ?c = Some reading3"
    by (simp add: get_coolest_def py_lt_def)
  moreover have "get_coolest ?t = Some reading1"
    by (simp add: get_coolest_def py_lt_def)
  moreover have "get_coolest (CylinderReadings []) = None"
    using C5_coolest_without_nan [of "CylinderReadings []"] by simp
  ultimately show ?thesis by simp
qed

section \<open>Indexing\<close>

lemma list_getitem_in_range:
  "0 \<le> i \<Longrightarrow> i < int (length xs) \<Longrightarrow> list_getitem xs i = Inr (xs ! nat i)"
  by (simp add: list_getitem_def)

lemma list_getitem_negative:
  "- int (length xs) \<le> i \<Longrightarrow> i < 0 \<Longrightarrow>
     list_getitem xs i = Inr (xs ! nat (int (length xs) + i))"
  by (simp add: list_getitem_def add.commute)

lemma list_getitem_error:
  "list_getitem xs i = Inl e \<longleftrightarrow>
     e = IndexError \<and> (i < - int (length xs) \<or> int (length xs) \<le> i)"
  by (auto simp: list_getitem_def Let_def)

text \<open>
  C2, as the code has it. The claim says that every negative index fails. The source
  hands the index to the list, and a Python list counts a negative index from its end:
  in a collection of two readings the index -1 returns the second reading.
\<close>

theorem C2_negative_index_counts_from_end:
  "getitem (CylinderReadings [reading1, reading2]) (- 1) = Inr reading2 \<and>
   getitem (CylinderReadings [reading1, reading2]) (- 1) \<noteq> Inl IndexError"
  by (simp add: getitem_def list_getitem_def)

text \<open>
  C2, amended. Indexing fails, and then with an IndexError, exactly when the index is
  below minus the length or at least the length. For an index in [0, length) it returns
  the stored element at that position; for an index in [-length, 0) it returns the stored
  element at position length + index.
\<close>

theorem C2_index_range:
  "(getitem c i = Inl IndexError \<longleftrightarrow> i < - len c \<or> len c \<le> i) \<and>
   (\<forall>e. getitem c i = Inl e \<longrightarrow> e = IndexError) \<and>
   (0 \<le> i \<and> i < len c \<longrightarrow> getitem c i = Inr (readings c ! nat i)) \<and>
   (- len c \<le> i \<and> i < 0 \<longrightarrow> getitem c i = Inr (readings c ! nat (len c + i)))"
  unfolding getitem_def len_def
  by (simp add: list_getitem_error list_getitem_in_range list_getitem_negative)

theorem C2_index_range_witness:
  "getitem (CylinderReadings [reading1, reading2]) 2 = Inl IndexError \<and>
   getitem (CylinderReadings [reading1, reading2]) (- 3) = Inl IndexError \<and>
   getitem (CylinderReadings [reading1, reading2]) 0 = Inr reading1 \<and>
   getitem (CylinderReadings [reading1, reading2]) 1 = Inr reading2 \<and>
   getitem (CylinderReadings [reading1, reading2]) (- 2) = Inr reading1"
proof -
  let ?c = "CylinderReadings [reading1, reading2]"
  show ?thesis
    using C2_index_range [of ?c 2] C2_index_range [of ?c "- 3"] C2_index_range [of ?c 0]
      C2_index_range [of ?c 1] C2_index_range [of ?c "- 2"]
    by (simp add: len_def)
qed

section \<open>get_difference\<close>

lemma get_hottest_None: "get_hottest c = None \<longleftrightarrow> readings c = []"
  by (simp add: get_hottest_def split: list.splits)

lemma get_coolest_None: "get_coolest c = None \<longleftrightarrow> readings c = []"
  by (simp add: get_coolest_def split: list.splits)

lemma get_difference_None: "get_difference rnd c = Inr None \<longleftrightarrow> readings c = []"
proof (cases "readings c")
  case Nil
  then show ?thesis by (simp add: get_difference_def get_hottest_def)
next
  case (Cons x xs)
  then show ?thesis
    by (simp add: get_difference_def get_hottest_def get_coolest_def split: sum.splits)
qed

lemma get_difference_Some:
  "get_hottest c = Some h \<Longrightarrow> get_coolest c = Some k \<Longrightarrow>
     get_difference rnd c = (case py_sub rnd (value h) (value k) of
                               Inl e \<Rightarrow> Inl e | Inr d \<Rightarrow> Inr (Some d))"
  by (simp add: get_difference_def)

text \<open>
  A finite number minus itself: the int 0 for an int or a bool, the float 0.0 for a float
  (the exact result 0 being rounded to 0.0). Both are equal to 0.0.
\<close>

lemma py_sub_self:
  assumes "isfinite a" and "rnd 0 = Finite 0"
  shows "\<exists>z. py_sub rnd a a = Inr z \<and> py_eq z (PyFloat (Finite 0))"
proof (cases a)
  case (PyBool b)
  then show ?thesis by (simp add: py_sub_def py_eq_def)
next
  case (PyInt i)
  then show ?thesis by (simp add: py_sub_def py_eq_def)
next
  case (PyFloat f)
  with assms(1) obtain r where "f = Finite r" by (cases f) simp_all
  with PyFloat assms(2) show ?thesis by (simp add: py_sub_def py_eq_def)
qed

text \<open>An infinity minus itself is NaN, and so is NaN minus itself, whatever the rounding.\<close>

lemma get_difference_single_infinite:
  "f = PosInf \<or> f = NegInf \<or> f = NaN \<Longrightarrow>
     get_difference rnd (CylinderReadings [\<lparr>number = n, value = PyFloat f\<rparr>])
       = Inr (Some (PyFloat NaN))"
  by (auto simp: get_difference_def get_hottest_def get_coolest_def py_sub_def)

text \<open>
  C4, as the code has it. The claim says that every collection of a single reading has the
  difference 0.0. A reading may hold an infinity (construction accepts it): the collection
  of the single reading with value infinity has the difference NaN, which is not equal to
  0.0.
\<close>

theorem C4_single_infinite_gives_nan:
  "get_difference exact_rounding (CylinderReadings [reading_inf]) = Inr (Some (PyFloat NaN)) \<and>
   \<not> py_eq (PyFloat NaN) (PyFloat (Finite 0))"
  by (simp add: get_difference_single_infinite py_eq_def)

text \<open>
  C4, amended. get_difference returns None if and only if the collection is empty. For
  every collection that is not empty, get_hottest and get_coolest return readings, and
  get_difference is the Python difference of the value of the hottest and the value of the
  coolest (it raises where that subtraction raises, and returns its result otherwise). For
  every collection of a single reading whose value is finite (an int, a bool or a finite
  float) it returns a number equal to 0.0, provided that the rounding of the platform
  represents zero exactly.
\<close>

theorem C4_difference:
  "(get_difference rnd c = Inr None \<longleftrightarrow> readings c = []) \<and>
   (readings c \<noteq> [] \<longrightarrow>
      (\<exists>h k. get_hottest c = Some h \<and> get_coolest c = Some k \<and>
         get_difference rnd c = (case py_sub rnd (value h) (value k) of
                                   Inl e \<Rightarrow> Inl e | Inr d \<Rightarrow> Inr (Some d)))) \<and>
   (\<forall>r. readings c = [r] \<and> isfinite (value r) \<and> rnd 0 = Finite 0 \<longrightarrow>
      (\<exists>z. get_difference rnd c = Inr (Some z) \<and> py_eq z (PyFloat (Finite 0))))"
proof (intro conjI allI impI)
  show "get_difference rnd c = Inr None \<longleftrightarrow> readings c = []"
    by (rule get_difference_None)
next
  assume "readings c \<noteq> []"
  then obtain h k where hk: "get_hottest c = Some h" "get_coolest c = Some k"
    using get_hottest_None [of c] get_coolest_None [of c] by auto
  then show "\<exists>h k. get_hottest c = Some h \<and> get_coolest c = Some k \<and>
         get_difference rnd c = (case py_sub rnd (value h) (value k) of
                                   Inl e \<Rightarrow> Inl e | Inr d \<Rightarrow> Inr (Some d))"
    using get_difference_Some [OF hk] by blast
next
  fix r assume a: "readings c = [r] \<and> isfinite (value r) \<and> rnd 0 = Finite 0"
  then have "get_hottest c = Some r" "get_coolest c = Some r"
    by (simp_all add: get_hottest_def get_coolest_def)
  then have d: "get_difference rnd c = (case py_sub rnd (value r) (value r) of
                                   Inl e \<Rightarrow> Inl e | Inr d \<Rightarrow> Inr (Some d))"
    by (rule get_difference_Some)
  from a obtain z where "py_sub rnd (value r) (value r) = Inr z" "py_eq z (PyFloat (Finite 0))"
    using py_sub_self by blast
  with d show "\<exists>z. get_difference rnd c = Inr (Some z) \<and> py_eq z (PyFloat (Finite 0))"
    by simp
qed

theorem C4_difference_witness:
  "get_difference exact_rounding (CylinderReadings []) = Inr None \<and>
   get_difference exact_rounding (CylinderReadings [reading1, reading2, reading3])
     = Inr (Some (PyFloat (Finite 70.5))) \<and>
   (\<exists>z. get_difference exact_rounding (CylinderReadings [reading1]) = Inr (Some z) \<and>
        py_eq z (PyFloat (Finite 0))) \<and>
   get_difference exact_rounding (CylinderReadings [reading1]) = Inr (Some (PyFloat (Finite 0)))"
proof -
  let ?c = "CylinderReadings [reading1, reading2, reading3]"
  let ?s = "CylinderReadings [reading1]"
  have "get_difference exact_rounding (CylinderReadings []) = Inr None"
    using C4_difference [of exact_rounding "CylinderReadings []"] by simp
  moreover have "get_hottest ?c = Some reading2" and "get_coolest ?c = Some reading3"
    by (simp_all add: get_hottest_def get_coolest_def py_gt_def py_lt_def)
  with C4_difference [of exact_rounding ?c]
  have "get_difference exact_rounding ?c = Inr (Some (PyFloat (Finite 70.5)))"
    by (simp add: py_sub_def exact_rounding_def)
  moreover have "\<exists>z. get_difference exact_rounding ?s = Inr (Some z) \<and>
      py_eq z (PyFloat (Finite 0))"
    using C4_difference [of exact_rounding ?s] by (simp add: exact_rounding_def)
  moreover have "get_difference exact_rounding ?s = Inr (Some (PyFloat (Finite 0)))"
    by (simp add: get_difference_def get_hottest_def get_coolest_def py_sub_def
        exact_rounding_def)
  ultimately show ?thesis by blast
qed

section \<open>Construction of an EngineData\<close>

text \<open>
  C7. Constructed with no argument, an EngineData has every scalar field absent (None) and
  two empty collections of length 0 as egts and chts.
\<close>

theorem C7_defaults:
  "rpm (EngineData_init Omitted Omitted Omitted Omitted Omitted
          Omitted Omitted Omitted Omitted Omitted) = PyNone \<and>
   manifold_pressure (EngineData_init Omitted Omitted Omitted Omitted Omitted
          Omitted Omitted Omitted Omitted Omitted) = PyNone \<and>
   oil_pressure (EngineData_init Omitted Omitted Omitted Omitted Omitted
          Omitted Omitted Omitted Omitted Omitted) = PyNone \<and>
   oil_temperature (EngineData_init Omitted Omitted Omitted Omitted Omitted
          Omitted Omitted Omitted Omitted Omitted) = PyNone \<and>
   fuel_pressure (EngineData_init Omitted Omitted Omitted Omitted Omitted
          Omitted Omitted Omitted Omitted Omitted) = PyNone \<and>
   volts (EngineData_init Omitted Omitted Omitted Omitted Omitted
          Omitted Omitted Omitted Omitted Omitted) = PyNone \<and>
   amps (EngineData_init Omitted Omitted Omitted Omitted Omitted
          Omitted Omitted Omitted Omitted Omitted) = PyNone \<and>
   g_force (EngineData_init Omitted Omitted Omitted Omitted Omitted
          Omitted Omitted Omitted Omitted Omitted) = PyNone \<and>
   readings (egts (EngineData_init Omitted Omitted Omitted Omitted Omitted
          Omitted Omitted Omitted Omitted Omitted)) = [] \<and>
   readings (chts (EngineData_init Omitted Omitted Omitted Omitted Omitted
          Omitted Omitted Omitted Omitted Omitted)) = [] \<and>
   len (egts (EngineData_init Omitted Omitted Omitted Omitted Omitted
          Omitted Omitted Omitted Omitted Omitted)) = 0 \<and>
   len (chts (EngineData_init Omitted Omitted Omitted Omitted Omitted
          Omitted Omitted Omitted Omitted Omitted)) = 0"
  by (simp add: EngineData_init_def len_def)

text \<open>
  C8. A value given for a scalar field is the value read back from that field, whatever
  the value (0.0 and negative numbers included) and whatever the other arguments: the
  constructor has no failing path and changes no value. A scalar field is
  absent (None) exactly when its argument was left out or was None itself; no number
  stands for absence.
\<close>

theorem C8_scalars_round_trip:
  "rpm (EngineData_init (Given v) mp eg ch op ot fp vo am gf) = v \<and>
   manifold_pressure (EngineData_init rp (Given v) eg ch op ot fp vo am gf) = v \<and>
   oil_pressure (EngineData_init rp mp eg ch (Given v) ot fp vo am gf) = v \<and>
   oil_temperature (EngineData_init rp mp eg ch op (Given v) fp vo am gf) = v \<and>
   fuel_pressure (EngineData_init rp mp eg ch op ot (Given v) vo am gf) = v \<and>
   volts (EngineData_init rp mp eg ch op ot fp (Given v) am gf) = v \<and>
   amps (EngineData_init rp mp eg ch op ot fp vo (Given v) gf) = v \<and>
   g_force (EngineData_init rp mp eg ch op ot fp vo am (Given v)) = v \<and>
   (rpm (EngineData_init rp mp eg ch op ot fp vo am gf) = PyNone
      \<longleftrightarrow> rp = Omitted \<or> rp = Given PyNone) \<and>
   (manifold_pressure (EngineData_init rp mp eg ch op ot fp vo am gf) = PyNone
      \<longleftrightarrow> mp = Omitted \<or> mp = Given PyNone) \<and>
   (oil_pressure (EngineData_init rp mp eg ch op ot fp vo am gf) = PyNone
      \<longleftrightarrow> op = Omitted \<or> op = Given PyNone) \<and>
   (oil_temperature (EngineData_init rp mp eg ch op ot fp vo am gf) = PyNone
      \<longleftrightarrow> ot = Omitted \<or> ot = Given PyNone) \<and>
   (fuel_pressure (EngineData_init rp mp eg ch op ot fp vo am gf) = PyNone
      \<longleftrightarrow> fp = Omitted \<or> fp = Given PyNone) \<and>
   (volts (EngineData_init rp mp eg ch op ot fp vo am gf) = PyNone
      \<longleftrightarrow> vo = Omitted \<or> vo = Given PyNone) \<and>
   (amps (EngineData_init rp mp eg ch op ot fp vo am gf) = PyNone
      \<longleftrightarrow> am = Omitted \<or> am = Given PyNone) \<and>
   (g_force (EngineData_init rp mp eg ch op ot fp vo am gf) = PyNone
      \<longleftrightarrow> gf = Omitted \<or> gf = Given PyNone)"
proof -
  have d: "(or_default a PyNone = PyNone) = (a = Omitted \<or> a = Given PyNone)" for a
    by (cases a) simp_all
  show ?thesis by (simp add: EngineData_init_def d)
qed

theorem C8_scalars_round_trip_witness:
  "rpm (EngineData_init (Given (PyNum (PyFloat (Finite 0)))) Omitted Omitted Omitted Omitted
          Omitted Omitted (Given (PyNum (PyFloat (Finite 0)))) Omitted
          (Given (PyNum (PyFloat (Finite (- 0.5)))))) = PyNum (PyFloat (Finite 0)) \<and>
   volts (EngineData_init (Given (PyNum (PyFloat (Finite 0)))) Omitted Omitted Omitted Omitted
          Omitted Omitted (Given (PyNum (PyFloat (Finite 0)))) Omitted
          (Given (PyNum (PyFloat (Finite (- 0.5)))))) = PyNum (PyFloat (Finite 0)) \<and>
   g_force (EngineData_init (Given (PyNum (PyFloat (Finite 0)))) Omitted Omitted Omitted Omitted
          Omitted Omitted (Given (PyNum (PyFloat (Finite 0)))) Omitted
          (Given (PyNum (PyFloat (Finite (- 0.5)))))) = PyNum (PyFloat (Finite (- 0.5))) \<and>
   rpm (EngineData_init (Given (PyNum (PyFloat (Finite 0)))) Omitted Omitted Omitted Omitted
          Omitted Omitted (Given (PyNum (PyFloat (Finite 0)))) Omitted
          (Given (PyNum (PyFloat (Finite (- 0.5)))))) \<noteq> PyNone \<and>
   amps (EngineData_init (Given (PyNum (PyFloat (Finite 0)))) Omitted Omitted Omitted Omitted
          Omitted Omitted (Given (PyNum (PyFloat (Finite 0)))) Omitted
          (Given (PyNum (PyFloat (Finite (- 0.5)))))) = PyNone"
  using C8_scalars_round_trip [of "PyNum (PyFloat (Finite 0))" Omitted Omitted Omitted Omitted
      Omitted Omitted "Given (PyNum (PyFloat (Finite 0)))" Omitted
      "Given (PyNum (PyFloat (Finite (- 0.5))))" "Given (PyNum (PyFloat (Finite 0)))"]
    C8_scalars_round_trip [of "PyNum (PyFloat (Finite (- 0.5)))" Omitted Omitted Omitted Omitted
      Omitted Omitted "Given (PyNum (PyFloat (Finite 0)))" Omitted
      "Given (PyNum (PyFloat (Finite (- 0.5))))" "Given (PyNum (PyFloat (Finite 0)))"]
  by simp

end
